theory Spec2Isabelle
  imports Main
begin

section \<open>The employee management service (serverextra.js, dataAccess.js)\<close>

text \<open>
  The service keeps two SQLite tables,
  \<^verbatim>\<open>employees (id INTEGER PRIMARY KEY AUTOINCREMENT, name TEXT, role TEXT, status TEXT)\<close> and
  \<^verbatim>\<open>roles (name TEXT PRIMARY KEY)\<close>, and every Express handler runs one SQL statement
  on them and maps its outcome to an HTTP status and a JSON body. The embedding has
  one function per SQL statement (\<open>db_...\<close>), returning the \<open>err\<close> of the sqlite3
  callback as the left summand, and one function per handler, taking the store and
  returning the store and the response.
\<close>

subsection \<open>Values\<close>

text \<open>
  A field destructured from \<open>req.body\<close> or \<open>req.query\<close>. The Swagger block of every
  route declares these fields \<open>type: string\<close>; a field that is absent destructures to
  \<open>undefined\<close>, and JSON can carry \<open>null\<close>. Numbers, booleans, arrays and objects, which
  the declared schema excludes, are not modelled. A string is a list of characters, one
  \<open>char\<close> for each character of the text.
\<close>

datatype jsval = Undefined | Null | Str string

text \<open>JavaScript's \<open>!v\<close> is false exactly on the truthy values.\<close>

fun truthy :: "jsval \<Rightarrow> bool" where
  "truthy Undefined = False"
| "truthy Null = False"
| "truthy (Str s) = (s \<noteq> [])"

text \<open>The template literal \<^verbatim>\<open>`${v}`\<close>.\<close>

fun template :: "jsval \<Rightarrow> string" where
  "template Undefined = ''undefined''"
| "template Null = ''null''"
| "template (Str s) = s"

text \<open>A value stored in a TEXT column: NULL or a text.\<close>

datatype sqlval = SqlNull | SqlText string

text \<open>
  Binding a JavaScript value to a \<open>?\<close> placeholder: sqlite3 binds \<open>null\<close> as NULL,
  leaves the placeholder of an \<open>undefined\<close> unbound, which SQLite reads as NULL, and
  binds a string as text.
\<close>

fun bind_param :: "jsval \<Rightarrow> sqlval" where
  "bind_param Undefined = SqlNull"
| "bind_param Null = SqlNull"
| "bind_param (Str s) = SqlText s"

text \<open>The SQL comparison \<open>a = b\<close> of two TEXT values as a WHERE condition: NULL equals nothing.\<close>

fun sql_eq :: "sqlval \<Rightarrow> sqlval \<Rightarrow> bool" where
  "sql_eq (SqlText a) (SqlText b) = (a = b)"
| "sql_eq _ _ = False"

subsection \<open>The LIKE operator\<close>

text \<open>
  SQLite's LIKE with no ESCAPE clause: \<open>%\<close> in the pattern matches any run of
  characters, \<open>_\<close> matches one character, and any other character matches itself with
  the case of the ASCII letters ignored.
\<close>

definition to_lower :: "char \<Rightarrow> char" where
  "to_lower c =
     (case map_of (zip ''ABCDEFGHIJKLMNOPQRSTUVWXYZ'' ''abcdefghijklmnopqrstuvwxyz'') c of
        Some l \<Rightarrow> l
      | None \<Rightarrow> c)"

fun like :: "string \<Rightarrow> string \<Rightarrow> bool" where
  "like [] [] = True"
| "like [] (c # cs) = False"
| "like (p # ps) [] = (p = CHR ''%'' \<and> like ps [])"
| "like (p # ps) (c # cs) =
     (if p = CHR ''%'' then like ps (c # cs) \<or> like (p # ps) cs
      else (p = CHR ''_'' \<or> to_lower p = to_lower c) \<and> like ps cs)"

text \<open>\<open>name LIKE ?\<close> as a WHERE condition: a NULL name matches no pattern.\<close>

fun sql_like :: "sqlval \<Rightarrow> string \<Rightarrow> bool" where
  "sql_like SqlNull pat = False"
| "sql_like (SqlText t) pat = like pat t"

subsection \<open>The store\<close>

text \<open>
  A row of \<open>employees\<close>; the columns \<open>id\<close>, \<open>name\<close>, \<open>role\<close> and \<open>status\<close> carry the
  prefix \<open>emp_\<close> here.
\<close>

record employee =
  emp_id :: int
  emp_name :: sqlval
  emp_role :: sqlval
  emp_status :: sqlval

text \<open>
  The database: the rows of \<open>employees\<close> in rowid order, the rows of \<open>roles\<close>, and the
  entry of \<open>sqlite_sequence\<close> that AUTOINCREMENT keeps for \<open>employees\<close> (the largest
  rowid ever assigned, 0 before the first insert).
\<close>

record store =
  employees :: "employee list"
  roles :: "sqlval list"
  sqlite_sequence :: int

definition init_store :: store where
  "init_store = \<lparr>employees = [], roles = [], sqlite_sequence = 0\<rparr>"

datatype sql_error = SQLITE_FULL | SQLITE_CONSTRAINT

subsection \<open>The SQL statements\<close>

definition max_rowid :: "employee list \<Rightarrow> int" where
  "max_rowid es = foldr (\<lambda>e m. max (emp_id e) m) es 0"

text \<open>
  \<^verbatim>\<open>INSERT INTO employees (name, role, status) VALUES (?, ?, ?)\<close>: AUTOINCREMENT takes one
  more than the larger of the \<open>sqlite_sequence\<close> entry and the largest rowid in the
  table, and fails with SQLITE_FULL once the largest 64-bit rowid has been used. The
  result carries \<open>this.lastID\<close>.
\<close>

definition db_insert_employee ::
  "store \<Rightarrow> jsval \<Rightarrow> jsval \<Rightarrow> jsval \<Rightarrow> sql_error + store \<times> int" where
  "db_insert_employee s name role status =
     (let top = max (sqlite_sequence s) (max_rowid (employees s)) in
      if top \<ge> 9223372036854775807 then Inl SQLITE_FULL
      else
        let row = \<lparr>emp_id = top + 1, emp_name = bind_param name,
                   emp_role = bind_param role, emp_status = bind_param status\<rparr>
        in Inr (s\<lparr>employees := employees s @ [row], sqlite_sequence := top + 1\<rparr>, top + 1))"

text \<open>\<^verbatim>\<open>SELECT * FROM employees WHERE id = ?\<close> through \<open>db.get\<close>: the first row, if any.\<close>

definition db_get_employee :: "store \<Rightarrow> int \<Rightarrow> sql_error + employee option" where
  "db_get_employee s i = Inr (find (\<lambda>e. emp_id e = i) (employees s))"

text \<open>
  The UPDATE and DELETE statements through \<open>db.run\<close>: the result carries \<open>this.changes\<close>,
  the number of rows the statement touched.
\<close>

definition db_update_employee ::
  "store \<Rightarrow> jsval \<Rightarrow> jsval \<Rightarrow> jsval \<Rightarrow> int \<Rightarrow> sql_error + store \<times> nat" where
  "db_update_employee s name role status i =
     Inr (s\<lparr>employees :=
              map (\<lambda>e. if emp_id e = i
                        then e\<lparr>emp_name := bind_param name, emp_role := bind_param role,
                               emp_status := bind_param status\<rparr>
                        else e) (employees s)\<rparr>,
          length (filter (\<lambda>e. emp_id e = i) (employees s)))"

definition db_delete_employee :: "store \<Rightarrow> int \<Rightarrow> sql_error + store \<times> nat" where
  "db_delete_employee s i =
     Inr (s\<lparr>employees := filter (\<lambda>e. emp_id e \<noteq> i) (employees s)\<rparr>,
          length (filter (\<lambda>e. emp_id e = i) (employees s)))"

definition db_update_role :: "store \<Rightarrow> jsval \<Rightarrow> int \<Rightarrow> sql_error + store \<times> nat" where
  "db_update_role s role i =
     Inr (s\<lparr>employees :=
              map (\<lambda>e. if emp_id e = i then e\<lparr>emp_role := bind_param role\<rparr> else e)
                (employees s)\<rparr>,
          length (filter (\<lambda>e. emp_id e = i) (employees s)))"

definition db_update_status :: "store \<Rightarrow> jsval \<Rightarrow> int \<Rightarrow> sql_error + store \<times> nat" where
  "db_update_status s status i =
     Inr (s\<lparr>employees :=
              map (\<lambda>e. if emp_id e = i then e\<lparr>emp_status := bind_param status\<rparr> else e)
                (employees s)\<rparr>,
          length (filter (\<lambda>e. emp_id e = i) (employees s)))"

text \<open>
  \<^verbatim>\<open>SELECT * FROM employees WHERE name LIKE ?\<close> through \<open>db.all\<close>: the matching rows in
  rowid order. (SQLite refuses a LIKE pattern of more than 50000 bytes; a query string
  of that length does not fit the request line that Node accepts, so this error is
  left out.)
\<close>

definition db_all_like :: "store \<Rightarrow> string \<Rightarrow> sql_error + employee list" where
  "db_all_like s pat = Inr (filter (\<lambda>e. sql_like (emp_name e) pat) (employees s))"

text \<open>\<^verbatim>\<open>SELECT * FROM employees WHERE name = ?\<close> through \<open>db.all\<close>.\<close>

definition db_all_name :: "store \<Rightarrow> string \<Rightarrow> sql_error + employee list" where
  "db_all_name s n = Inr (filter (\<lambda>e. sql_eq (emp_name e) (SqlText n)) (employees s))"

text \<open>
  \<^verbatim>\<open>INSERT INTO roles (name) VALUES (?)\<close>: the primary key refuses a text that is there
  already (SQLite lets NULL into a primary key that is not an integer).
\<close>

definition db_insert_role :: "store \<Rightarrow> jsval \<Rightarrow> sql_error + store" where
  "db_insert_role s name =
     (if list_ex (\<lambda>r. sql_eq r (bind_param name)) (roles s) then Inl SQLITE_CONSTRAINT
      else Inr (s\<lparr>roles := roles s @ [bind_param name]\<rparr>))"

text \<open>\<^verbatim>\<open>DELETE FROM roles WHERE name = ?\<close>.\<close>

definition db_delete_role :: "store \<Rightarrow> string \<Rightarrow> sql_error + store \<times> nat" where
  "db_delete_role s name =
     Inr (s\<lparr>roles := filter (\<lambda>r. \<not> sql_eq r (SqlText name)) (roles s)\<rparr>,
          length (filter (\<lambda>r. sql_eq r (SqlText name)) (roles s)))"

text \<open>
  \<^verbatim>\<open>SELECT employees.*, roles.name AS roleName FROM employees LEFT JOIN roles
  ON employees.role = roles.name WHERE employees.id = ?\<close> through \<open>db.get\<close>: every
  employee row is paired with each role row of its name, or with NULL when there is
  none, and the first row of the result is returned.
\<close>

definition left_join :: "sqlval list \<Rightarrow> employee \<Rightarrow> (employee \<times> sqlval) list" where
  "left_join rs e =
     (case filter (\<lambda>r. sql_eq (emp_role e) r) rs of
        [] \<Rightarrow> [(e, SqlNull)]
      | ms \<Rightarrow> map (\<lambda>r. (e, r)) ms)"

definition db_get_details :: "store \<Rightarrow> int \<Rightarrow> sql_error + (employee \<times> sqlval) option" where
  "db_get_details s i =
     Inr (case concat (map (left_join (roles s)) (filter (\<lambda>e. emp_id e = i) (employees s))) of
            [] \<Rightarrow> None
          | row # _ \<Rightarrow> Some row)"

text \<open>The two COUNT(*) statements.\<close>

definition db_count_employees :: "store \<Rightarrow> sql_error + nat" where
  "db_count_employees s = Inr (length (employees s))"

definition db_count_roles :: "store \<Rightarrow> sql_error + nat" where
  "db_count_roles s = Inr (length (roles s))"

subsection \<open>Responses\<close>

text \<open>
  The JSON bodies the handlers send: \<open>{error}\<close>, \<open>{message}\<close>, the object
  \<open>{id, name, role, status}\<close> built from the request, a row of \<open>employees\<close>, a list of
  rows, a row with its \<open>roleName\<close>, \<open>{name}\<close> and the two counts.
\<close>

datatype json =
  Error_json string
| Message_json string
| Employee_json int jsval jsval jsval
| Row_json employee
| Rows_json "employee list"
| Details_json employee sqlval
| Role_json jsval
| Total_employees_json nat
| Total_roles_json nat

record response =
  http_status :: nat
  json_body :: json

text \<open>\<open>res.status(c).json(b)\<close>; \<open>res.json(b)\<close> alone answers 200.\<close>

definition respond :: "nat \<Rightarrow> json \<Rightarrow> response" where
  "respond c b = \<lparr>http_status = c, json_body = b\<rparr>"

subsection \<open>The handlers of serverextra.js\<close>

text \<open>
  The \<open>:id\<close> path parameter is declared \<open>type: integer\<close> by each route; the handlers
  take the integer that SQLite compares with the \<open>id\<close> column.
\<close>

definition post_employees :: "store \<Rightarrow> jsval \<Rightarrow> jsval \<Rightarrow> jsval \<Rightarrow> store \<times> response" where
  "post_employees s name role status =
     (if \<not> truthy name \<or> \<not> truthy role \<or> \<not> truthy status
      then (s, respond 400 (Error_json ''Missing required fields.''))
      else
        case db_insert_employee s name role status of
          Inl err \<Rightarrow> (s, respond 500 (Error_json ''Failed to create employee.''))
        | Inr (s', lastID) \<Rightarrow> (s', respond 201 (Employee_json lastID name role status)))"

definition get_employee :: "store \<Rightarrow> int \<Rightarrow> store \<times> response" where
  "get_employee s i =
     (case db_get_employee s i of
        Inl err \<Rightarrow> (s, respond 500 (Error_json ''Failed to retrieve employee.''))
      | Inr None \<Rightarrow> (s, respond 404 (Error_json ''Employee not found.''))
      | Inr (Some row) \<Rightarrow> (s, respond 200 (Row_json row)))"

definition put_employee :: "store \<Rightarrow> int \<Rightarrow> jsval \<Rightarrow> jsval \<Rightarrow> jsval \<Rightarrow> store \<times> response" where
  "put_employee s i name role status =
     (case db_update_employee s name role status i of
        Inl err \<Rightarrow> (s, respond 500 (Error_json ''Failed to update employee.''))
      | Inr (s', changes) \<Rightarrow>
          if changes = 0 then (s', respond 404 (Error_json ''Employee not found.''))
          else (s', respond 200 (Employee_json i name role status)))"

definition delete_employee :: "store \<Rightarrow> int \<Rightarrow> store \<times> response" where
  "delete_employee s i =
     (case db_delete_employee s i of
        Inl err \<Rightarrow> (s, respond 500 (Error_json ''Failed to delete employee.''))
      | Inr (s', changes) \<Rightarrow>
          if changes = 0 then (s', respond 404 (Error_json ''Employee not found.''))
          else (s', respond 200 (Message_json ''Employee deleted successfully.'')))"

definition assign_role :: "store \<Rightarrow> int \<Rightarrow> jsval \<Rightarrow> store \<times> response" where
  "assign_role s i role =
     (case db_update_role s role i of
        Inl err \<Rightarrow> (s, respond 500 (Error_json ''Failed to assign role.''))
      | Inr (s', changes) \<Rightarrow>
          if changes = 0 then (s', respond 404 (Error_json ''Employee not found.''))
          else (s', respond 200 (Message_json ''Role assigned successfully.'')))"

definition search_employees :: "store \<Rightarrow> jsval \<Rightarrow> store \<times> response" where
  "search_employees s name =
     (case db_all_like s (''%'' @ template name @ ''%'') of
        Inl err \<Rightarrow> (s, respond 500 (Error_json ''Failed to search employees.''))
      | Inr rows \<Rightarrow>
          if length rows = 0 then (s, respond 404 (Error_json ''Employee not found.''))
          else (s, respond 200 (Rows_json rows)))"

definition total_employees :: "store \<Rightarrow> store \<times> response" where
  "total_employees s =
     (case db_count_employees s of
        Inl err \<Rightarrow> (s, respond 500 (Error_json ''Failed to retrieve total employees.''))
      | Inr n \<Rightarrow> (s, respond 200 (Total_employees_json n)))"

definition total_roles :: "store \<Rightarrow> store \<times> response" where
  "total_roles s =
     (case db_count_roles s of
        Inl err \<Rightarrow> (s, respond 500 (Error_json ''Failed to retrieve total roles.''))
      | Inr n \<Rightarrow> (s, respond 200 (Total_roles_json n)))"

definition create_role :: "store \<Rightarrow> jsval \<Rightarrow> store \<times> response" where
  "create_role s name =
     (if \<not> truthy name then (s, respond 400 (Error_json ''Missing role name.''))
      else
        case db_insert_role s name of
          Inl err \<Rightarrow> (s, respond 500 (Error_json ''Failed to create role.''))
        | Inr s' \<Rightarrow> (s', respond 201 (Role_json name)))"

definition delete_role :: "store \<Rightarrow> string \<Rightarrow> store \<times> response" where
  "delete_role s name =
     (case db_delete_role s name of
        Inl err \<Rightarrow> (s, respond 500 (Error_json ''Failed to delete role.''))
      | Inr (s', changes) \<Rightarrow>
          if changes = 0 then (s', respond 404 (Error_json ''Role not found.''))
          else (s', respond 200 (Message_json ''Role deleted successfully.'')))"

definition update_status :: "store \<Rightarrow> int \<Rightarrow> jsval \<Rightarrow> store \<times> response" where
  "update_status s i status =
     (case db_update_status s status i of
        Inl err \<Rightarrow> (s, respond 500 (Error_json ''Failed to update employee status.''))
      | Inr (s', changes) \<Rightarrow>
          if changes = 0 then (s', respond 404 (Error_json ''Employee not found.''))
          else (s', respond 200 (Message_json ''Employee status updated successfully.'')))"

definition employee_details :: "store \<Rightarrow> int \<Rightarrow> store \<times> response" where
  "employee_details s i =
     (case db_get_details s i of
        Inl err \<Rightarrow> (s, respond 500 (Error_json ''Failed to retrieve employee details.''))
      | Inr None \<Rightarrow> (s, respond 404 (Error_json ''Employee not found.''))
      | Inr (Some (e, roleName)) \<Rightarrow> (s, respond 200 (Details_json e roleName)))"

subsection \<open>The standalone data-access module (dataAccess.js)\<close>

text \<open>\<open>searchEmployeesByName\<close> hands the callback the \<open>err\<close> or the rows of \<open>db.all\<close>.\<close>

definition searchEmployeesByName :: "store \<Rightarrow> jsval \<Rightarrow> sql_error + employee list" where
  "searchEmployeesByName s name = db_all_name s (template name)"

subsection \<open>Runs of requests\<close>

text \<open>A request is one call of a handler with the parameters it reads.\<close>

datatype request =
  Post_employees jsval jsval jsval
| Get_employee int
| Put_employee int jsval jsval jsval
| Delete_employee int
| Assign_role int jsval
| Search_employees jsval
| Total_employees
| Total_roles
| Create_role jsval
| Delete_role string
| Update_status int jsval
| Employee_details int

fun handle :: "store \<Rightarrow> request \<Rightarrow> store \<times> response" where
  "handle s (Post_employees name role status) = post_employees s name role status"
| "handle s (Get_employee i) = get_employee s i"
| "handle s (Put_employee i name role status) = put_employee s i name role status"
| "handle s (Delete_employee i) = delete_employee s i"
| "handle s (Assign_role i role) = assign_role s i role"
| "handle s (Search_employees name) = search_employees s name"
| "handle s Total_employees = total_employees s"
| "handle s Total_roles = total_roles s"
| "handle s (Create_role name) = create_role s name"
| "handle s (Delete_role name) = delete_role s name"
| "handle s (Update_status i status) = update_status s i status"
| "handle s (Employee_details i) = employee_details s i"

text \<open>Serving a list of requests in order, from a given store.\<close>

fun run :: "store \<Rightarrow> request list \<Rightarrow> store \<times> response list" where
  "run s [] = (s, [])"
| "run s (q # qs) =
     (case handle s q of (s', r) \<Rightarrow> (case run s' qs of (s'', rs) \<Rightarrow> (s'', r # rs)))"

text \<open>The id a response reports as newly created: that of a 201 with an employee object.\<close>

definition created_id :: "response \<Rightarrow> int option" where
  "created_id r =
     (case json_body r of
        Employee_json i _ _ _ \<Rightarrow> if http_status r = 201 then Some i else None
      | _ \<Rightarrow> None)"

definition created_ids :: "response list \<Rightarrow> int list" where
  "created_ids rs = List.map_filter created_id rs"

section \<open>Properties\<close>

subsection \<open>Rows that no statement touches\<close>

lemma filter_id_absent:
  "i \<notin> emp_id ` set es \<Longrightarrow> filter (\<lambda>e. emp_id e = i) es = []"
  by (induction es) auto

lemma filter_other_absent:
  "i \<notin> emp_id ` set es \<Longrightarrow> filter (\<lambda>e. emp_id e \<noteq> i) es = es"
  by (induction es) auto

lemma map_id_absent:
  "i \<notin> emp_id ` set es \<Longrightarrow> map (\<lambda>e. if emp_id e = i then f e else e) es = es"
  by (induction es) auto

lemma find_id_absent:
  "i \<notin> emp_id ` set es \<Longrightarrow> find (\<lambda>e. emp_id e = i) es = None"
  by (induction es) auto

text \<open>
  C2. When no row of \<open>employees\<close> has the id, each of the six handlers that address an
  employee by id (get, update, delete, assign-role, update-status, details) answers
  404 \<open>Employee not found.\<close>, and the store it returns is the store it was given.
\<close>

theorem absent_id_not_found:
  assumes "i \<notin> emp_id ` set (employees s)"
  shows "get_employee s i = (s, respond 404 (Error_json ''Employee not found.''))
       \<and> put_employee s i name role status = (s, respond 404 (Error_json ''Employee not found.''))
       \<and> delete_employee s i = (s, respond 404 (Error_json ''Employee not found.''))
       \<and> assign_role s i role' = (s, respond 404 (Error_json ''Employee not found.''))
       \<and> update_status s i status' = (s, respond 404 (Error_json ''Employee not found.''))
       \<and> employee_details s i = (s, respond 404 (Error_json ''Employee not found.''))"
proof -
  note absent = filter_id_absent [OF assms] filter_other_absent [OF assms]
    map_id_absent [OF assms] find_id_absent [OF assms]
  have "get_employee s i = (s, respond 404 (Error_json ''Employee not found.''))"
    by (simp add: get_employee_def db_get_employee_def absent)
  moreover have "put_employee s i name role status = (s, respond 404 (Error_json ''Employee not found.''))"
    by (simp add: put_employee_def db_update_employee_def absent)
  moreover have "delete_employee s i = (s, respond 404 (Error_json ''Employee not found.''))"
    by (simp add: delete_employee_def db_delete_employee_def absent)
  moreover have "assign_role s i role' = (s, respond 404 (Error_json ''Employee not found.''))"
    by (simp add: assign_role_def db_update_role_def absent)
  moreover have "update_status s i status' = (s, respond 404 (Error_json ''Employee not found.''))"
    by (simp add: update_status_def db_update_status_def absent)
  moreover have "employee_details s i = (s, respond 404 (Error_json ''Employee not found.''))"
    by (simp add: employee_details_def db_get_details_def absent)
  ultimately show ?thesis by simp
qed

text \<open>After one employee has been created (id 1), id 7 is absent.\<close>

theorem absent_id_not_found_witness:
  "(let s = fst (run init_store [Post_employees (Str ''Ana'') (Str ''eng'') (Str ''active'')]) in
     7 \<notin> emp_id ` set (employees s) \<and> employees s \<noteq> [] \<and>
     get_employee s 7 = (s, respond 404 (Error_json ''Employee not found.'')) \<and>
     put_employee s 7 (Str ''Bo'') (Str ''ops'') (Str ''away'') =
       (s, respond 404 (Error_json ''Employee not found.'')) \<and>
     delete_employee s 7 = (s, respond 404 (Error_json ''Employee not found.'')) \<and>
     assign_role s 7 (Str ''ops'') = (s, respond 404 (Error_json ''Employee not found.'')) \<and>
     update_status s 7 (Str ''away'') = (s, respond 404 (Error_json ''Employee not found.'')) \<and>
     employee_details s 7 = (s, respond 404 (Error_json ''Employee not found.'')))"
proof -
  define s where
    "s = fst (run init_store [Post_employees (Str ''Ana'') (Str ''eng'') (Str ''active'')])"
  have emps: "employees s = [\<lparr>emp_id = 1, emp_name = SqlText ''Ana'',
      emp_role = SqlText ''eng'', emp_status = SqlText ''active''\<rparr>]"
    by (simp add: s_def init_store_def post_employees_def db_insert_employee_def
        max_rowid_def respond_def)
  have h: "7 \<notin> emp_id ` set (employees s)"
    by (simp add: emps)
  show ?thesis
    unfolding Let_def s_def [symmetric]
    using absent_id_not_found [OF h] emps by simp
qed

subsection \<open>Validation of a new employee\<close>

text \<open>
  C6. When any of \<open>name\<close>, \<open>role\<close> and \<open>status\<close> of a create request is missing
  (\<open>undefined\<close>, \<open>null\<close>) or the empty string, the handler answers 400
  \<open>Missing required fields.\<close> and returns the store as it was: no row is inserted.
\<close>

theorem create_missing_field:
  assumes "name \<in> {Undefined, Null, Str []} \<or> role \<in> {Undefined, Null, Str []}
         \<or> status \<in> {Undefined, Null, Str []}"
  shows "post_employees s name role status =
           (s, respond 400 (Error_json ''Missing required fields.''))"
proof -
  have "\<not> truthy name \<or> \<not> truthy role \<or> \<not> truthy status"
    using assms by auto
  then show ?thesis
    by (simp add: post_employees_def)
qed

theorem create_missing_field_witness:
  "Str [] \<in> {Undefined, Null, Str []} \<and>
   post_employees init_store (Str ''Ana'') (Str []) (Str ''active'') =
     (init_store, respond 400 (Error_json ''Missing required fields.'')) \<and>
   post_employees init_store (Str ''Ana'') (Str ''eng'') Undefined =
     (init_store, respond 400 (Error_json ''Missing required fields.''))"
proof -
  have h: "Str ''Ana'' \<in> {Undefined, Null, Str []} \<or> Str [] \<in> {Undefined, Null, Str []}
         \<or> Str ''active'' \<in> {Undefined, Null, Str []}"
    by simp
  have h': "Str ''Ana'' \<in> {Undefined, Null, Str []} \<or> Str ''eng'' \<in> {Undefined, Null, Str []}
         \<or> Undefined \<in> {Undefined, Null, Str []}"
    by simp
  show ?thesis
    using create_missing_field [OF h, of init_store] create_missing_field [OF h', of init_store]
    by simp
qed

subsection \<open>Deleting a role\<close>

text \<open>
  C7. Deleting a role, whatever its name and whatever the store, leaves the rows of
  \<open>employees\<close> (and the AUTOINCREMENT counter) as they were, also the rows whose \<open>role\<close>
  is the deleted name.
\<close>

theorem delete_role_keeps_employees:
  "employees (fst (delete_role s name)) = employees s
   \<and> sqlite_sequence (fst (delete_role s name)) = sqlite_sequence s"
  by (simp add: delete_role_def db_delete_role_def)

text \<open>A role that an employee refers to is deleted; the employee row stays.\<close>

theorem delete_role_keeps_employees_witness:
  "(let s = fst (run init_store [Create_role (Str ''eng''),
                   Post_employees (Str ''Ana'') (Str ''eng'') (Str ''active'')]) in
     snd (delete_role s ''eng'') = respond 200 (Message_json ''Role deleted successfully.'') \<and>
     roles (fst (delete_role s ''eng'')) = [] \<and>
     employees (fst (delete_role s ''eng'')) =
       [\<lparr>emp_id = 1, emp_name = SqlText ''Ana'', emp_role = SqlText ''eng'',
         emp_status = SqlText ''active''\<rparr>])"
proof -
  define s where "s = fst (run init_store [Create_role (Str ''eng''),
                   Post_employees (Str ''Ana'') (Str ''eng'') (Str ''active'')])"
  have st: "s = \<lparr>employees = [\<lparr>emp_id = 1, emp_name = SqlText ''Ana'', emp_role = SqlText ''eng'',
         emp_status = SqlText ''active''\<rparr>], roles = [SqlText ''eng''], sqlite_sequence = 1\<rparr>"
    by (simp add: s_def init_store_def create_role_def db_insert_role_def post_employees_def
        db_insert_employee_def max_rowid_def respond_def)
  have "employees s = [\<lparr>emp_id = 1, emp_name = SqlText ''Ana'', emp_role = SqlText ''eng'',
         emp_status = SqlText ''active''\<rparr>]" by (simp add: st)
  moreover have "snd (delete_role s ''eng'') = respond 200 (Message_json ''Role deleted successfully.'')"
    by (simp add: st delete_role_def db_delete_role_def)
  moreover have "roles (fst (delete_role s ''eng'')) = []"
    by (simp add: st delete_role_def db_delete_role_def)
  ultimately show ?thesis
    unfolding Let_def s_def [symmetric]
    using delete_role_keeps_employees [of s "''eng''"] by simp
qed

subsection \<open>Ids of new employees\<close>

lemma post_employees_result:
  assumes "post_employees s name role status = (s', r)" and "http_status r = 201"
  shows "json_body r = Employee_json (sqlite_sequence s') name role status
       \<and> sqlite_sequence s < sqlite_sequence s'"
  using assms
  by (auto simp: post_employees_def db_insert_employee_def respond_def Let_def
      split: if_splits)

lemma post_employees_seq:
  "post_employees s name role status = (s', r) \<Longrightarrow> sqlite_sequence s \<le> sqlite_sequence s'"
  by (auto simp: post_employees_def db_insert_employee_def Let_def split: if_splits)

lemma post_employees_created:
  "post_employees s name role status = (s', r) \<Longrightarrow> created_id r = Some j \<Longrightarrow>
   j = sqlite_sequence s'"
  by (auto simp: post_employees_def db_insert_employee_def respond_def Let_def created_id_def
      split: if_splits)

lemma handle_seq_mono:
  "handle s q = (s', r) \<Longrightarrow> sqlite_sequence s \<le> sqlite_sequence s'"
proof (cases q)
  case (Post_employees name role status)
  then show "handle s q = (s', r) \<Longrightarrow> ?thesis"
    by (simp add: post_employees_seq)
qed (auto simp: get_employee_def db_get_employee_def put_employee_def db_update_employee_def
      delete_employee_def db_delete_employee_def assign_role_def db_update_role_def
      search_employees_def db_all_like_def total_employees_def db_count_employees_def
      total_roles_def db_count_roles_def create_role_def db_insert_role_def
      delete_role_def db_delete_role_def update_status_def db_update_status_def
      employee_details_def db_get_details_def
      split: if_splits option.splits list.splits)

lemma handle_created_le:
  "handle s q = (s', r) \<Longrightarrow> created_id r = Some j \<Longrightarrow> j \<le> sqlite_sequence s'"
proof (cases q)
  case (Post_employees name role status)
  then show "handle s q = (s', r) \<Longrightarrow> created_id r = Some j \<Longrightarrow> ?thesis"
    using post_employees_created [of s name role status s' r j] by simp
qed (auto simp: get_employee_def db_get_employee_def put_employee_def db_update_employee_def
      delete_employee_def db_delete_employee_def assign_role_def db_update_role_def
      search_employees_def db_all_like_def total_employees_def db_count_employees_def
      total_roles_def db_count_roles_def create_role_def db_insert_role_def
      delete_role_def db_delete_role_def update_status_def db_update_status_def
      employee_details_def db_get_details_def respond_def created_id_def
      split: if_splits option.splits list.splits)

lemma run_seq_mono:
  "run s qs = (s', rs) \<Longrightarrow> sqlite_sequence s \<le> sqlite_sequence s'"
proof (induction qs arbitrary: s s' rs)
  case Nil
  then show ?case by simp
next
  case (Cons q qs)
  obtain s1 r where h: "handle s q = (s1, r)" by (cases "handle s q")
  obtain s2 rs' where t: "run s1 qs = (s2, rs')" by (cases "run s1 qs")
  from Cons.prems h t have "s' = s2" by simp
  with handle_seq_mono [OF h] Cons.IH [OF t] show ?case by simp
qed

lemma run_created_le:
  "run s qs = (s', rs) \<Longrightarrow> j \<in> set (created_ids rs) \<Longrightarrow> j \<le> sqlite_sequence s'"
proof (induction qs arbitrary: s s' rs)
  case Nil
  then show ?case by (simp add: created_ids_def)
next
  case (Cons q qs)
  obtain s1 r where h: "handle s q = (s1, r)" by (cases "handle s q")
  obtain s2 rs' where t: "run s1 qs = (s2, rs')" by (cases "run s1 qs")
  from Cons.prems(1) h t have eq: "s' = s2" "rs = r # rs'" by simp_all
  from Cons.prems(2) eq consider "created_id r = Some j" | "j \<in> set (created_ids rs')"
    by (auto simp: created_ids_def map_filter_simps split: option.splits)
  then show ?case
  proof cases
    case 1
    from handle_created_le [OF h 1] run_seq_mono [OF t] eq show ?thesis by simp
  next
    case 2
    from Cons.IH [OF t 2] eq show ?thesis by simp
  qed
qed

lemma max_rowid_ge: "e \<in> set es \<Longrightarrow> emp_id e \<le> max_rowid es"
  by (induction es) (auto simp: max_rowid_def)

lemma post_employees_above_table:
  assumes "post_employees s name role status = (s', r)" and "http_status r = 201"
    and "e \<in> set (employees s)"
  shows "emp_id e < sqlite_sequence s'"
  using assms(1,2) max_rowid_ge [OF assms(3)]
  by (auto simp: post_employees_def db_insert_employee_def respond_def Let_def
      split: if_splits)

text \<open>
  C3. Serve any list of requests (creates, deletes and every other handler) from the
  empty database. A create that then succeeds (201) reports an id that is strictly
  greater than every id a create has reported before, and than every id in the table:
  the id of a deleted row is not given out again.
\<close>

theorem create_id_exceeds_assigned:
  assumes "run init_store qs = (s, rs)"
      and "post_employees s name role status = (s', r)"
      and "http_status r = 201"
  shows "\<exists>i. json_body r = Employee_json i name role status
           \<and> (\<forall>j \<in> set (created_ids rs). j < i)
           \<and> (\<forall>e \<in> set (employees s). emp_id e < i)"
proof -
  from post_employees_result [OF assms(2,3)]
  have body: "json_body r = Employee_json (sqlite_sequence s') name role status"
    and lt: "sqlite_sequence s < sqlite_sequence s'" by simp_all
  have "\<forall>j \<in> set (created_ids rs). j < sqlite_sequence s'"
    using run_created_le [OF assms(1)] lt by fastforce
  moreover have "\<forall>e \<in> set (employees s). emp_id e < sqlite_sequence s'"
    using post_employees_above_table [OF assms(2,3)] by blast
  ultimately show ?thesis using body by blast
qed

text \<open>The scenario of the specification: ids 1 and 2 are created, 1 is deleted, the next is 3.\<close>

theorem create_id_exceeds_assigned_witness:
  "(let qs = [Post_employees (Str ''Ana'') (Str ''eng'') (Str ''active''),
              Post_employees (Str ''Bo'') (Str ''eng'') (Str ''active''),
              Delete_employee 1];
        s = fst (run init_store qs);
        rs = snd (run init_store qs);
        r = snd (post_employees s (Str ''Cy'') (Str ''eng'') (Str ''active''))
    in created_ids rs = [1, 2] \<and> map emp_id (employees s) = [2] \<and> http_status r = 201
       \<and> json_body r = Employee_json 3 (Str ''Cy'') (Str ''eng'') (Str ''active'')
       \<and> (\<exists>i. json_body r = Employee_json i (Str ''Cy'') (Str ''eng'') (Str ''active'')
              \<and> 1 < i \<and> 2 < i))"
proof -
  define qs where "qs = [Post_employees (Str ''Ana'') (Str ''eng'') (Str ''active''),
              Post_employees (Str ''Bo'') (Str ''eng'') (Str ''active''),
              Delete_employee 1]"
  define s where "s = fst (run init_store qs)"
  define rs where "rs = snd (run init_store qs)"
  define r where "r = snd (post_employees s (Str ''Cy'') (Str ''eng'') (Str ''active''))"
  define s' where "s' = fst (post_employees s (Str ''Cy'') (Str ''eng'') (Str ''active''))"
  have run_eq: "run init_store qs = (s, rs)"
    by (simp add: s_def rs_def)
  have post_eq: "post_employees s (Str ''Cy'') (Str ''eng'') (Str ''active'') = (s', r)"
    by (simp add: s'_def r_def)
  have st: "s = \<lparr>employees = [\<lparr>emp_id = 2, emp_name = SqlText ''Bo'',
      emp_role = SqlText ''eng'', emp_status = SqlText ''active''\<rparr>], roles = [],
      sqlite_sequence = 2\<rparr>"
    by (simp add: s_def qs_def init_store_def post_employees_def db_insert_employee_def
        max_rowid_def delete_employee_def db_delete_employee_def respond_def)
  have ids: "created_ids rs = [1, 2]"
    by (simp add: rs_def qs_def init_store_def post_employees_def db_insert_employee_def
        max_rowid_def delete_employee_def db_delete_employee_def respond_def
        created_ids_def created_id_def map_filter_simps)
  have r_eq: "r = respond 201 (Employee_json 3 (Str ''Cy'') (Str ''eng'') (Str ''active''))"
    by (simp add: r_def st post_employees_def db_insert_employee_def max_rowid_def)
  have ok: "http_status r = 201"
    by (simp add: r_eq respond_def)
  from create_id_exceeds_assigned [OF run_eq post_eq ok]
  have "\<exists>i. json_body r = Employee_json i (Str ''Cy'') (Str ''eng'') (Str ''active'')
              \<and> 1 < i \<and> 2 < i"
    by (auto simp: ids)
  then show ?thesis
    unfolding Let_def qs_def [symmetric] s_def [symmetric] rs_def [symmetric] r_def [symmetric]
    using ids ok by (simp add: st r_eq respond_def)
qed

subsection \<open>Updating an employee\<close>

lemma filter_id_present:
  "i \<in> emp_id ` set es \<Longrightarrow> filter (\<lambda>e. emp_id e = i) es \<noteq> []"
  by (induction es) auto

lemma find_updated:
  "i \<in> emp_id ` set es \<Longrightarrow>
   find (\<lambda>e. emp_id e = i)
     (map (\<lambda>e. if emp_id e = i then e\<lparr>emp_name := a, emp_role := b, emp_status := c\<rparr> else e) es)
   = Some \<lparr>emp_id = i, emp_name = a, emp_role = b, emp_status = c\<rparr>"
  by (induction es) auto

text \<open>
  C4. For an id that is in the table, the update answers 200 and a get of the same id
  on the resulting store answers 200 with the row whose \<open>name\<close>, \<open>role\<close> and \<open>status\<close> are
  the three values of the update as SQLite stores them (a string as that string, an
  absent or null field as NULL): nothing of the earlier row but its id remains.
\<close>

theorem update_then_get:
  assumes "i \<in> emp_id ` set (employees s)"
  shows "\<exists>s'. put_employee s i name role status =
                 (s', respond 200 (Employee_json i name role status))
             \<and> get_employee s' i =
                 (s', respond 200 (Row_json \<lparr>emp_id = i, emp_name = bind_param name,
                    emp_role = bind_param role, emp_status = bind_param status\<rparr>))"
proof -
  define s' where "s' = s\<lparr>employees :=
              map (\<lambda>e. if emp_id e = i
                        then e\<lparr>emp_name := bind_param name, emp_role := bind_param role,
                               emp_status := bind_param status\<rparr>
                        else e) (employees s)\<rparr>"
  have upd: "db_update_employee s name role status i =
      Inr (s', length (filter (\<lambda>e. emp_id e = i) (employees s)))"
    by (simp add: db_update_employee_def s'_def)
  have put: "put_employee s i name role status =
      (s', respond 200 (Employee_json i name role status))"
    using filter_id_present [OF assms] by (simp add: put_employee_def upd)
  have "find (\<lambda>e. emp_id e = i) (employees s') =
      Some \<lparr>emp_id = i, emp_name = bind_param name,
            emp_role = bind_param role, emp_status = bind_param status\<rparr>"
    using find_updated [OF assms] by (simp add: s'_def)
  then have "get_employee s' i =
      (s', respond 200 (Row_json \<lparr>emp_id = i, emp_name = bind_param name,
                    emp_role = bind_param role, emp_status = bind_param status\<rparr>))"
    by (simp add: get_employee_def db_get_employee_def)
  with put show ?thesis by blast
qed

text \<open>Ana is updated with a name and a status and no role; the role comes back NULL.\<close>

theorem update_then_get_witness:
  "(let s = fst (run init_store [Post_employees (Str ''Ana'') (Str ''eng'') (Str ''active'')]);
        s' = fst (put_employee s 1 (Str ''Bo'') Undefined (Str ''away''))
    in 1 \<in> emp_id ` set (employees s)
       \<and> put_employee s 1 (Str ''Bo'') Undefined (Str ''away'') =
           (s', respond 200 (Employee_json 1 (Str ''Bo'') Undefined (Str ''away'')))
       \<and> get_employee s' 1 =
           (s', respond 200 (Row_json \<lparr>emp_id = 1, emp_name = SqlText ''Bo'',
              emp_role = SqlNull, emp_status = SqlText ''away''\<rparr>)))"
proof -
  define s where
    "s = fst (run init_store [Post_employees (Str ''Ana'') (Str ''eng'') (Str ''active'')])"
  have emps: "employees s = [\<lparr>emp_id = 1, emp_name = SqlText ''Ana'',
      emp_role = SqlText ''eng'', emp_status = SqlText ''active''\<rparr>]"
    by (simp add: s_def init_store_def post_employees_def db_insert_employee_def
        max_rowid_def respond_def)
  have h: "1 \<in> emp_id ` set (employees s)"
    by (simp add: emps)
  from update_then_get [OF h, of "Str ''Bo''" Undefined "Str ''away''"]
  obtain s' where put: "put_employee s 1 (Str ''Bo'') Undefined (Str ''away'') =
           (s', respond 200 (Employee_json 1 (Str ''Bo'') Undefined (Str ''away'')))"
    and get: "get_employee s' 1 =
           (s', respond 200 (Row_json \<lparr>emp_id = 1, emp_name = SqlText ''Bo'',
              emp_role = SqlNull, emp_status = SqlText ''away''\<rparr>))"
    by auto
  have "fst (put_employee s 1 (Str ''Bo'') Undefined (Str ''away'')) = s'"
    by (simp add: put)
  with h put get show ?thesis
    unfolding Let_def s_def [symmetric] by simp
qed

lemma put_employee_status:
  "http_status (snd (put_employee s j name role status)) =
     (if filter (\<lambda>e. emp_id e = j) (employees s) = [] then 404 else 200)"
  by (simp add: put_employee_def db_update_employee_def respond_def)

lemma put_employee_rows:
  "employees (fst (put_employee s i name role status)) =
     map (\<lambda>e. if emp_id e = i
               then e\<lparr>emp_name := bind_param name, emp_role := bind_param role,
                      emp_status := bind_param status\<rparr>
               else e) (employees s)"
  by (simp add: put_employee_def db_update_employee_def)

lemma put_employee_overwrites:
  assumes "e \<in> set (employees (fst (put_employee s i name role status)))" and "emp_id e = i"
  shows "emp_name e = bind_param name \<and> emp_role e = bind_param role
       \<and> emp_status e = bind_param status"
proof -
  from assms(1) have "e \<in> (\<lambda>e. if emp_id e = i
               then e\<lparr>emp_name := bind_param name, emp_role := bind_param role,
                      emp_status := bind_param status\<rparr>
               else e) ` set (employees s)"
    unfolding put_employee_rows set_map .
  then obtain e0 where e0: "e0 \<in> set (employees s)"
    and e: "e = (if emp_id e0 = i
               then e0\<lparr>emp_name := bind_param name, emp_role := bind_param role,
                      emp_status := bind_param status\<rparr>
               else e0)"
    by (rule imageE)
  show ?thesis
  proof (cases "emp_id e0 = i")
    case True
    with e show ?thesis by simp
  next
    case False
    with e assms(2) show ?thesis by simp
  qed
qed

text \<open>
  C10. For an id that is in the table, the update answers 200 whatever the body holds:
  the column of every field that is absent from the body is NULL in the updated row.
  For no id and no body does the update answer 400.
\<close>

theorem put_no_validation:
  assumes "i \<in> emp_id ` set (employees s)"
  shows "http_status (snd (put_employee s i name role status)) = 200
       \<and> (\<forall>e \<in> set (employees (fst (put_employee s i name role status))).
             emp_id e = i \<longrightarrow>
               (name = Undefined \<longrightarrow> emp_name e = SqlNull)
             \<and> (role = Undefined \<longrightarrow> emp_role e = SqlNull)
             \<and> (status = Undefined \<longrightarrow> emp_status e = SqlNull))
       \<and> (\<forall>j. http_status (snd (put_employee s j name role status)) \<noteq> 400)"
proof -
  have ok: "http_status (snd (put_employee s i name role status)) = 200"
    using filter_id_present [OF assms] by (simp add: put_employee_status)
  have never: "\<forall>j. http_status (snd (put_employee s j name role status)) \<noteq> 400"
    by (simp add: put_employee_status)
  have rows: "\<forall>e \<in> set (employees (fst (put_employee s i name role status))).
             emp_id e = i \<longrightarrow>
               (name = Undefined \<longrightarrow> emp_name e = SqlNull)
             \<and> (role = Undefined \<longrightarrow> emp_role e = SqlNull)
             \<and> (status = Undefined \<longrightarrow> emp_status e = SqlNull)"
  proof (intro ballI impI conjI)
    fix e
    assume e: "e \<in> set (employees (fst (put_employee s i name role status)))" "emp_id e = i"
    note ow = put_employee_overwrites [OF e]
    { assume "name = Undefined" with ow show "emp_name e = SqlNull" by simp }
    { assume "role = Undefined" with ow show "emp_role e = SqlNull" by simp }
    { assume "status = Undefined" with ow show "emp_status e = SqlNull" by simp }
  qed
  from ok rows never show ?thesis by (intro conjI)
qed

text \<open>An update with an empty body sets all three columns of Ana's row to NULL.\<close>

theorem put_no_validation_witness:
  "(let s = fst (run init_store [Post_employees (Str ''Ana'') (Str ''eng'') (Str ''active'')])
    in 1 \<in> emp_id ` set (employees s)
       \<and> put_employee s 1 Undefined Undefined Undefined =
           (s\<lparr>employees := [\<lparr>emp_id = 1, emp_name = SqlNull, emp_role = SqlNull,
                              emp_status = SqlNull\<rparr>]\<rparr>,
            respond 200 (Employee_json 1 Undefined Undefined Undefined))
       \<and> http_status (snd (put_employee s 1 Undefined Undefined Undefined)) = 200)"
proof -
  define s where
    "s = fst (run init_store [Post_employees (Str ''Ana'') (Str ''eng'') (Str ''active'')])"
  have emps: "employees s = [\<lparr>emp_id = 1, emp_name = SqlText ''Ana'',
      emp_role = SqlText ''eng'', emp_status = SqlText ''active''\<rparr>]"
    by (simp add: s_def init_store_def post_employees_def db_insert_employee_def
        max_rowid_def respond_def)
  have h: "1 \<in> emp_id ` set (employees s)"
    by (simp add: emps)
  have put: "put_employee s 1 Undefined Undefined Undefined =
           (s\<lparr>employees := [\<lparr>emp_id = 1, emp_name = SqlNull, emp_role = SqlNull,
                              emp_status = SqlNull\<rparr>]\<rparr>,
            respond 200 (Employee_json 1 Undefined Undefined Undefined))"
    by (simp add: put_employee_def db_update_employee_def emps)
  from put_no_validation [OF h, of Undefined Undefined Undefined]
  have "http_status (snd (put_employee s 1 Undefined Undefined Undefined)) = 200"
    by blast
  with h put show ?thesis
    unfolding Let_def s_def [symmetric] by blast
qed

subsection \<open>Details of an employee\<close>

lemma find_Some_filter:
  "find P xs = Some x \<Longrightarrow> \<exists>ys. filter P xs = x # ys"
  by (induction xs) (auto split: if_splits)

lemma left_join_no_role:
  "\<not> list_ex (\<lambda>r. sql_eq (emp_role e) r) rs \<Longrightarrow> left_join rs e = [(e, SqlNull)]"
proof -
  assume "\<not> list_ex (\<lambda>r. sql_eq (emp_role e) r) rs"
  then have "filter (\<lambda>r. sql_eq (emp_role e) r) rs = []"
    by (simp add: list_ex_iff filter_empty_conv)
  then show ?thesis by (simp add: left_join_def)
qed

lemma left_join_row: "\<exists>r rest. left_join rs e = (e, r) # rest"
  by (cases "filter (\<lambda>r. sql_eq (emp_role e) r) rs") (simp_all add: left_join_def)

lemma details_status:
  "http_status (snd (employee_details s i)) =
     (if filter (\<lambda>e. emp_id e = i) (employees s) = [] then 404 else 200)"
proof (cases "filter (\<lambda>e. emp_id e = i) (employees s)")
  case Nil
  then show ?thesis
    by (simp add: employee_details_def db_get_details_def respond_def)
next
  case (Cons e es)
  obtain r rest where "left_join (roles s) e = (e, r) # rest"
    using left_join_row by blast
  with Cons show ?thesis
    by (simp add: employee_details_def db_get_details_def respond_def)
qed

text \<open>
  C5. When the table has a row for the id and no row of \<open>roles\<close> equals its \<open>role\<close>, the
  details handler answers 200 with that row and \<open>roleName\<close> NULL. In every store, whatever
  the roles, it answers 404 for exactly the ids that have no row in \<open>employees\<close>, and 200
  for every id that has one.
\<close>

theorem details_dangling_role:
  "(find (\<lambda>e. emp_id e = i) (employees s) = Some e
      \<and> \<not> list_ex (\<lambda>r. sql_eq (emp_role e) r) (roles s)
      \<longrightarrow> employee_details s i = (s, respond 200 (Details_json e SqlNull)))
   \<and> ((http_status (snd (employee_details s j)) = 404)
        = (j \<notin> emp_id ` set (employees s)))
   \<and> (j \<in> emp_id ` set (employees s)
        \<longrightarrow> http_status (snd (employee_details s j)) = 200)"
proof -
  have dangling: "employee_details s i = (s, respond 200 (Details_json e SqlNull))"
    if row: "find (\<lambda>e. emp_id e = i) (employees s) = Some e"
      and none: "\<not> list_ex (\<lambda>r. sql_eq (emp_role e) r) (roles s)"
  proof -
    obtain ys where "filter (\<lambda>e. emp_id e = i) (employees s) = e # ys"
      using find_Some_filter [OF row] by blast
    then show ?thesis
      by (simp add: employee_details_def db_get_details_def left_join_no_role [OF none])
  qed
  have present: "http_status (snd (employee_details s j)) = 200"
    if "j \<in> emp_id ` set (employees s)"
    using filter_id_present [OF that] by (simp add: details_status)
  have absent: "http_status (snd (employee_details s j)) = 404"
    if "j \<notin> emp_id ` set (employees s)"
    using filter_id_absent [OF that] by (simp add: details_status)
  have iff: "(http_status (snd (employee_details s j)) = 404)
        = (j \<notin> emp_id ` set (employees s))"
  proof (cases "j \<in> emp_id ` set (employees s)")
    case True
    with present [OF True] show ?thesis by simp
  next
    case False
    with absent [OF False] show ?thesis by simp
  qed
  from dangling present iff show ?thesis by blast
qed

text \<open>
  Ana's role \<open>eng\<close> is not among the roles (only \<open>ops\<close> is), and id 2 has no row. Once
  the role \<open>eng\<close> exists, Ana's details are still answered 200, now with the role's name.
\<close>

theorem details_dangling_role_witness:
  "(let ana = \<lparr>emp_id = 1, emp_name = SqlText ''Ana'', emp_role = SqlText ''eng'',
                emp_status = SqlText ''active''\<rparr>;
        s = fst (run init_store [Create_role (Str ''ops''),
                   Post_employees (Str ''Ana'') (Str ''eng'') (Str ''active'')]);
        s2 = fst (create_role s (Str ''eng''))
    in find (\<lambda>e. emp_id e = 1) (employees s) = Some ana
       \<and> roles s = [SqlText ''ops'']
       \<and> \<not> list_ex (\<lambda>r. sql_eq (emp_role ana) r) (roles s)
       \<and> employee_details s 1 = (s, respond 200 (Details_json ana SqlNull))
       \<and> http_status (snd (employee_details s 2)) = 404
       \<and> roles s2 = [SqlText ''ops'', SqlText ''eng'']
       \<and> 1 \<in> emp_id ` set (employees s2)
       \<and> http_status (snd (employee_details s2 1)) = 200
       \<and> employee_details s2 1 = (s2, respond 200 (Details_json ana (SqlText ''eng''))))"
proof -
  define ana where "ana = \<lparr>emp_id = 1, emp_name = SqlText ''Ana'', emp_role = SqlText ''eng'',
                emp_status = SqlText ''active''\<rparr>"
  define s where "s = fst (run init_store [Create_role (Str ''ops''),
                   Post_employees (Str ''Ana'') (Str ''eng'') (Str ''active'')])"
  define s2 where "s2 = fst (create_role s (Str ''eng''))"
  have st: "s = \<lparr>employees = [ana], roles = [SqlText ''ops''], sqlite_sequence = 1\<rparr>"
    by (simp add: s_def ana_def init_store_def create_role_def db_insert_role_def
        post_employees_def db_insert_employee_def max_rowid_def respond_def)
  have st2: "s2 = \<lparr>employees = [ana], roles = [SqlText ''ops'', SqlText ''eng''],
      sqlite_sequence = 1\<rparr>"
    by (simp add: s2_def st create_role_def db_insert_role_def)
  have h1: "find (\<lambda>e. emp_id e = 1) (employees s) = Some ana"
    by (simp add: st) (simp add: ana_def)
  have h2: "\<not> list_ex (\<lambda>r. sql_eq (emp_role ana) r) (roles s)"
    by (simp add: st) (simp add: ana_def)
  have rs: "roles s = [SqlText ''ops'']"
    by (simp add: st)
  have rs2: "roles s2 = [SqlText ''ops'', SqlText ''eng'']"
    by (simp add: st2)
  have two: "2 \<notin> emp_id ` set (employees s)"
    by (simp add: st) (simp add: ana_def)
  have one: "1 \<in> emp_id ` set (employees s2)"
    by (simp add: st2) (simp add: ana_def)
  from details_dangling_role [of 1 s ana 2] h1 h2 two
  have d1: "employee_details s 1 = (s, respond 200 (Details_json ana SqlNull))"
    and d2: "http_status (snd (employee_details s 2)) = 404"
    by blast+
  from details_dangling_role [of 1 s2 ana 1] one
  have d3: "http_status (snd (employee_details s2 1)) = 200"
    by blast
  have d4: "employee_details s2 1 = (s2, respond 200 (Details_json ana (SqlText ''eng'')))"
    by (simp add: employee_details_def db_get_details_def left_join_def st2) (simp add: ana_def)
  from h1 h2 rs d1 d2 rs2 one d3 d4 show ?thesis
    unfolding Let_def ana_def [symmetric] s_def [symmetric] s2_def [symmetric] by blast
qed

subsection \<open>Searching by name\<close>

lemma like_percent: "like ''%'' t"
  by (induction t) simp_all

lemma like_skip: "like ps t \<Longrightarrow> like (CHR ''%'' # ps) t"
  by (cases t) simp_all

lemma like_drop: "like (CHR ''%'' # ps) t \<Longrightarrow> like (CHR ''%'' # ps) (a @ t)"
  by (induction a) simp_all

lemma like_self_then_any: "like (q @ ''%'') (q @ b)"
proof (induction q)
  case Nil
  show ?case by (simp add: like_percent)
next
  case (Cons p q)
  show ?case
  proof (cases "p = CHR ''%''")
    case True
    have "like (CHR ''%'' # q @ ''%'') (q @ b)"
      using Cons.IH by (rule like_skip)
    with True show ?thesis by simp
  next
    case False
    with Cons.IH show ?thesis by simp
  qed
qed

lemma like_infix: "like (''%'' @ q @ ''%'') (a @ q @ b)"
  using like_drop [OF like_skip [OF like_self_then_any [of q b]], of a] by simp

lemma search_employees_rows:
  "search_employees s name =
     (s, if filter (\<lambda>e. sql_like (emp_name e) (''%'' @ template name @ ''%'')) (employees s) = []
         then respond 404 (Error_json ''Employee not found.'')
         else respond 200 (Rows_json
           (filter (\<lambda>e. sql_like (emp_name e) (''%'' @ template name @ ''%'')) (employees s))))"
  by (simp add: search_employees_def db_all_like_def)

lemma like_all: "like ''%%'' t"
  using like_skip [OF like_percent [of t]] by simp

lemma sql_like_all: "sql_like v ''%%'' = (v \<noteq> SqlNull)"
  by (cases v) (simp_all add: like_all del: like.simps)

text \<open>
  C1, as the specification states it, fails: with Ana in the table, a search for \<open>Bo\<close>
  matches nobody and is answered 404 \<open>Employee not found.\<close>, not 200 with an empty list.
\<close>

theorem search_no_match_counterexample:
  "employees (fst (run init_store [Post_employees (Str ''Ana'') (Str ''eng'') (Str ''active'')]))
     = [\<lparr>emp_id = 1, emp_name = SqlText ''Ana'', emp_role = SqlText ''eng'',
          emp_status = SqlText ''active''\<rparr>]
   \<and> search_employees
         (fst (run init_store [Post_employees (Str ''Ana'') (Str ''eng'') (Str ''active'')]))
         (Str ''Bo'')
     = (fst (run init_store [Post_employees (Str ''Ana'') (Str ''eng'') (Str ''active'')]),
        respond 404 (Error_json ''Employee not found.''))
   \<and> search_employees
         (fst (run init_store [Post_employees (Str ''Ana'') (Str ''eng'') (Str ''active'')]))
         (Str ''Bo'')
     \<noteq> (fst (run init_store [Post_employees (Str ''Ana'') (Str ''eng'') (Str ''active'')]),
        respond 200 (Rows_json []))"
proof -
  define s where
    "s = fst (run init_store [Post_employees (Str ''Ana'') (Str ''eng'') (Str ''active'')])"
  have emps: "employees s = [\<lparr>emp_id = 1, emp_name = SqlText ''Ana'',
      emp_role = SqlText ''eng'', emp_status = SqlText ''active''\<rparr>]"
    by (simp add: s_def init_store_def post_employees_def db_insert_employee_def
        max_rowid_def respond_def)
  have "search_employees s (Str ''Bo'') = (s, respond 404 (Error_json ''Employee not found.''))"
    by (simp add: search_employees_rows emps to_lower_def)
  moreover from this
  have "search_employees s (Str ''Bo'') \<noteq> (s, respond 200 (Rows_json []))"
    by (simp add: respond_def)
  ultimately show ?thesis
    unfolding s_def [symmetric] using emps by blast
qed

text \<open>
  C1, amended. A search that no employee matches (no name is LIKE \<open>%query%\<close>) is answered
  404 \<open>Employee not found.\<close>, the store unchanged; a search that some employee matches is
  answered 200 with the matching rows in table order. So a 200 never carries an empty
  list.
\<close>

theorem search_no_match:
  "((\<forall>e \<in> set (employees s). \<not> sql_like (emp_name e) (''%'' @ template name @ ''%''))
      \<longrightarrow> search_employees s name = (s, respond 404 (Error_json ''Employee not found.'')))
   \<and> ((\<exists>e \<in> set (employees s). sql_like (emp_name e) (''%'' @ template name @ ''%''))
      \<longrightarrow> search_employees s name =
            (s, respond 200 (Rows_json
               (filter (\<lambda>e. sql_like (emp_name e) (''%'' @ template name @ ''%''))
                  (employees s)))))"
  by (simp add: search_employees_rows filter_empty_conv del: like.simps)

text \<open>With Ana alone in the table, \<open>Bo\<close> matches nobody and \<open>na\<close> matches Ana.\<close>

theorem search_no_match_witness:
  "(let s = fst (run init_store [Post_employees (Str ''Ana'') (Str ''eng'') (Str ''active'')]);
        ana = \<lparr>emp_id = 1, emp_name = SqlText ''Ana'', emp_role = SqlText ''eng'',
                emp_status = SqlText ''active''\<rparr>
    in employees s = [ana]
       \<and> \<not> sql_like (emp_name ana) (''%'' @ template (Str ''Bo'') @ ''%'')
       \<and> search_employees s (Str ''Bo'') = (s, respond 404 (Error_json ''Employee not found.''))
       \<and> sql_like (emp_name ana) (''%'' @ template (Str ''na'') @ ''%'')
       \<and> search_employees s (Str ''na'') = (s, respond 200 (Rows_json [ana])))"
proof -
  define s where
    "s = fst (run init_store [Post_employees (Str ''Ana'') (Str ''eng'') (Str ''active'')])"
  define ana where "ana = \<lparr>emp_id = 1, emp_name = SqlText ''Ana'', emp_role = SqlText ''eng'',
                emp_status = SqlText ''active''\<rparr>"
  have emps: "employees s = [ana]"
    by (simp add: s_def ana_def init_store_def post_employees_def db_insert_employee_def
        max_rowid_def respond_def)
  have no: "\<not> sql_like (emp_name ana) (''%'' @ template (Str ''Bo'') @ ''%'')"
    by (simp add: ana_def to_lower_def)
  have yes: "sql_like (emp_name ana) (''%'' @ template (Str ''na'') @ ''%'')"
    by (simp add: ana_def to_lower_def)
  have all_no: "\<forall>e \<in> set (employees s).
      \<not> sql_like (emp_name e) (''%'' @ template (Str ''Bo'') @ ''%'')"
    using no by (simp add: emps del: like.simps)
  have some_yes: "\<exists>e \<in> set (employees s).
      sql_like (emp_name e) (''%'' @ template (Str ''na'') @ ''%'')"
    using yes by (simp add: emps del: like.simps)
  have flt: "filter (\<lambda>e. sql_like (emp_name e) (''%'' @ template (Str ''na'') @ ''%''))
      (employees s) = [ana]"
    using yes by (simp add: emps del: like.simps)
  from search_no_match [of s "Str ''Bo''"] all_no
  have r1: "search_employees s (Str ''Bo'') =
      (s, respond 404 (Error_json ''Employee not found.''))"
    by blast
  from search_no_match [of s "Str ''na''"] some_yes
  have r2: "search_employees s (Str ''na'') = (s, respond 200 (Rows_json [ana]))"
    unfolding flt by blast
  from emps no yes r1 r2 show ?thesis
    unfolding Let_def s_def [symmetric] ana_def [symmetric] by blast
qed

text \<open>
  C8, as the specification states it, fails twice: on the empty database the search for the
  empty string is answered 404, not 200 with the empty list; and an employee whose name
  is NULL (Bo, after an update with no name) is left out of the result.
\<close>

theorem search_empty_query_counterexample:
  "search_employees init_store (Str []) =
     (init_store, respond 404 (Error_json ''Employee not found.''))
   \<and> search_employees init_store (Str []) \<noteq>
     (init_store, respond 200 (Rows_json (employees init_store)))
   \<and> employees (fst (run init_store
         [Post_employees (Str ''Ana'') (Str ''eng'') (Str ''active''),
          Post_employees (Str ''Bo'') (Str ''eng'') (Str ''active''),
          Put_employee 2 Undefined (Str ''eng'') (Str ''active'')]))
     = [\<lparr>emp_id = 1, emp_name = SqlText ''Ana'', emp_role = SqlText ''eng'',
          emp_status = SqlText ''active''\<rparr>,
        \<lparr>emp_id = 2, emp_name = SqlNull, emp_role = SqlText ''eng'',
          emp_status = SqlText ''active''\<rparr>]
   \<and> snd (search_employees (fst (run init_store
         [Post_employees (Str ''Ana'') (Str ''eng'') (Str ''active''),
          Post_employees (Str ''Bo'') (Str ''eng'') (Str ''active''),
          Put_employee 2 Undefined (Str ''eng'') (Str ''active'')])) (Str []))
     = respond 200 (Rows_json
         [\<lparr>emp_id = 1, emp_name = SqlText ''Ana'', emp_role = SqlText ''eng'',
            emp_status = SqlText ''active''\<rparr>])"
proof -
  define s where "s = fst (run init_store
         [Post_employees (Str ''Ana'') (Str ''eng'') (Str ''active''),
          Post_employees (Str ''Bo'') (Str ''eng'') (Str ''active''),
          Put_employee 2 Undefined (Str ''eng'') (Str ''active'')])"
  have "search_employees init_store (Str []) =
     (init_store, respond 404 (Error_json ''Employee not found.''))"
    by (simp add: search_employees_rows init_store_def)
  moreover from this have "search_employees init_store (Str []) \<noteq>
     (init_store, respond 200 (Rows_json (employees init_store)))"
    by (simp add: respond_def)
  moreover have emps: "employees s = [\<lparr>emp_id = 1, emp_name = SqlText ''Ana'',
        emp_role = SqlText ''eng'', emp_status = SqlText ''active''\<rparr>,
      \<lparr>emp_id = 2, emp_name = SqlNull, emp_role = SqlText ''eng'',
        emp_status = SqlText ''active''\<rparr>]"
    by (simp add: s_def init_store_def post_employees_def db_insert_employee_def
        max_rowid_def respond_def put_employee_def db_update_employee_def)
  moreover have "snd (search_employees s (Str [])) = respond 200 (Rows_json
      [\<lparr>emp_id = 1, emp_name = SqlText ''Ana'', emp_role = SqlText ''eng'',
         emp_status = SqlText ''active''\<rparr>])"
    by (simp add: search_employees_rows emps sql_like_all del: like.simps)
  ultimately show ?thesis
    unfolding s_def [symmetric] by blast
qed

text \<open>
  C8, amended. The search for the empty string is answered 200 with the employees whose
  name is not NULL, in table order, when there is one, and 404 when there is none (as in
  the empty database). In particular, on a table that is not empty and holds no NULL
  name, it is answered 200 with every employee.
\<close>

theorem search_empty_query:
  "search_employees s (Str []) =
     (s, if filter (\<lambda>e. emp_name e \<noteq> SqlNull) (employees s) = []
         then respond 404 (Error_json ''Employee not found.'')
         else respond 200 (Rows_json (filter (\<lambda>e. emp_name e \<noteq> SqlNull) (employees s))))
   \<and> (employees s \<noteq> [] \<and> (\<forall>e \<in> set (employees s). emp_name e \<noteq> SqlNull)
        \<longrightarrow> search_employees s (Str []) = (s, respond 200 (Rows_json (employees s))))"
proof -
  have rows: "search_employees s (Str []) =
     (s, if filter (\<lambda>e. emp_name e \<noteq> SqlNull) (employees s) = []
         then respond 404 (Error_json ''Employee not found.'')
         else respond 200 (Rows_json (filter (\<lambda>e. emp_name e \<noteq> SqlNull) (employees s))))"
    by (simp add: search_employees_rows sql_like_all del: like.simps)
  have "search_employees s (Str []) = (s, respond 200 (Rows_json (employees s)))"
    if "employees s \<noteq> []" and "\<forall>e \<in> set (employees s). emp_name e \<noteq> SqlNull"
  proof -
    from that(2) have "filter (\<lambda>e. emp_name e \<noteq> SqlNull) (employees s) = employees s"
      by (simp add: filter_id_conv)
    with that(1) show ?thesis by (simp add: rows)
  qed
  with rows show ?thesis by blast
qed

text \<open>Ana and Bo, both named, are both returned.\<close>

theorem search_empty_query_witness:
  "(let s = fst (run init_store [Post_employees (Str ''Ana'') (Str ''eng'') (Str ''active''),
                   Post_employees (Str ''Bo'') (Str ''ops'') (Str ''away'')]);
        ana = \<lparr>emp_id = 1, emp_name = SqlText ''Ana'', emp_role = SqlText ''eng'',
                emp_status = SqlText ''active''\<rparr>;
        bo = \<lparr>emp_id = 2, emp_name = SqlText ''Bo'', emp_role = SqlText ''ops'',
                emp_status = SqlText ''away''\<rparr>
    in employees s = [ana, bo] \<and> emp_name ana \<noteq> SqlNull \<and> emp_name bo \<noteq> SqlNull
       \<and> search_employees s (Str []) = (s, respond 200 (Rows_json [ana, bo])))"
proof -
  define s where "s = fst (run init_store [Post_employees (Str ''Ana'') (Str ''eng'') (Str ''active''),
                   Post_employees (Str ''Bo'') (Str ''ops'') (Str ''away'')])"
  define ana where "ana = \<lparr>emp_id = 1, emp_name = SqlText ''Ana'', emp_role = SqlText ''eng'',
                emp_status = SqlText ''active''\<rparr>"
  define bo where "bo = \<lparr>emp_id = 2, emp_name = SqlText ''Bo'', emp_role = SqlText ''ops'',
                emp_status = SqlText ''away''\<rparr>"
  have emps: "employees s = [ana, bo]"
    by (simp add: s_def ana_def bo_def init_store_def post_employees_def db_insert_employee_def
        max_rowid_def respond_def)
  have names: "emp_name ana \<noteq> SqlNull" "emp_name bo \<noteq> SqlNull"
    by (simp_all add: ana_def bo_def)
  have h: "employees s \<noteq> [] \<and> (\<forall>e \<in> set (employees s). emp_name e \<noteq> SqlNull)"
    using names by (simp add: emps)
  from search_empty_query [of s] h
  have "search_employees s (Str []) = (s, respond 200 (Rows_json (employees s)))"
    by blast
  with emps names show ?thesis
    unfolding Let_def s_def [symmetric] ana_def [symmetric] bo_def [symmetric] by simp
qed

lemma searchEmployeesByName_rows:
  "searchEmployeesByName s name =
     Inr (filter (\<lambda>e. emp_name e = SqlText (template name)) (employees s))"
proof -
  have "sql_eq v (SqlText n) = (v = SqlText n)" for v n
    by (cases v) auto
  then show ?thesis
    by (simp add: searchEmployeesByName_def db_all_name_def)
qed

lemma ne_in_set_empty: "x \<in> set xs \<Longrightarrow> xs \<noteq> []"
  by (cases xs) simp_all

lemma search_strict_substring:
  assumes "e \<in> set (employees s)" and "emp_name e = SqlText (a @ q @ b)" and "a @ b \<noteq> []"
  shows "\<exists>rows rows'. search_employees s (Str q) = (s, respond 200 (Rows_json rows))
           \<and> searchEmployeesByName s (Str q) = Inr rows'
           \<and> e \<in> set rows \<and> e \<notin> set rows'"
proof -
  let ?rows = "filter (\<lambda>e. sql_like (emp_name e) (''%'' @ template (Str q) @ ''%'')) (employees s)"
  let ?rows' = "filter (\<lambda>e. emp_name e = SqlText (template (Str q))) (employees s)"
  have "sql_like (emp_name e) (''%'' @ template (Str q) @ ''%'')"
    using like_infix [of q a b] by (simp add: assms(2) del: like.simps)
  with assms(1) have in_rows: "e \<in> set ?rows"
    by (simp del: like.simps)
  then have "?rows \<noteq> []" by (rule ne_in_set_empty)
  then have "search_employees s (Str q) = (s, respond 200 (Rows_json ?rows))"
    by (simp add: search_employees_rows del: like.simps)
  moreover have "searchEmployeesByName s (Str q) = Inr ?rows'"
    by (rule searchEmployeesByName_rows)
  moreover have "e \<notin> set ?rows'"
  proof -
    have "a @ q @ b \<noteq> q"
    proof
      assume "a @ q @ b = q"
      then have "length (a @ q @ b) = length q" by simp
      with assms(3) show False by simp
    qed
    with assms(2) show ?thesis by simp
  qed
  ultimately show ?thesis using in_rows by blast
qed

text \<open>
  C9. \<open>searchEmployeesByName\<close> of the data-access module (equality on the name) and the
  search handler (LIKE \<open>%query%\<close>) are not equivalent: there are a store and a query on
  which the rows of the one are not the rows of the other. By \<open>search_strict_substring\<close>
  any query that is a strict substring of an employee's name is such a query.
\<close>

theorem search_variants_differ:
  "\<exists>s q rows rows'.
      search_employees s q = (s, respond 200 (Rows_json rows))
    \<and> searchEmployeesByName s q = Inr rows'
    \<and> set rows \<noteq> set rows'"
proof -
  define ana where "ana = \<lparr>emp_id = 1, emp_name = SqlText ''Ana'', emp_role = SqlText ''eng'',
                emp_status = SqlText ''active''\<rparr>"
  define s where "s = \<lparr>employees = [ana], roles = [], sqlite_sequence = 1\<rparr>"
  have "ana \<in> set (employees s)" by (simp add: s_def)
  moreover have "emp_name ana = SqlText ([] @ ''An'' @ ''a'')" by (simp add: ana_def)
  moreover have "[] @ ''a'' \<noteq> []" by simp
  ultimately obtain rows rows' where
    "search_employees s (Str ''An'') = (s, respond 200 (Rows_json rows))"
    "searchEmployeesByName s (Str ''An'') = Inr rows'"
    "ana \<in> set rows" "ana \<notin> set rows'"
    using search_strict_substring by blast
  then show ?thesis by blast
qed

text \<open>With Ana in the table, the query \<open>An\<close> gives Ana by LIKE and nothing by equality.\<close>

lemma like_and_equality_example:
  "(let ana = \<lparr>emp_id = 1, emp_name = SqlText ''Ana'', emp_role = SqlText ''eng'',
                emp_status = SqlText ''active''\<rparr>;
        s = fst (run init_store [Post_employees (Str ''Ana'') (Str ''eng'') (Str ''active'')])
    in search_employees s (Str ''An'') = (s, respond 200 (Rows_json [ana]))
       \<and> searchEmployeesByName s (Str ''An'') = Inr []
       \<and> searchEmployeesByName s (Str ''Ana'') = Inr [ana])"
proof -
  define s where
    "s = fst (run init_store [Post_employees (Str ''Ana'') (Str ''eng'') (Str ''active'')])"
  have emps: "employees s = [\<lparr>emp_id = 1, emp_name = SqlText ''Ana'',
      emp_role = SqlText ''eng'', emp_status = SqlText ''active''\<rparr>]"
    by (simp add: s_def init_store_def post_employees_def db_insert_employee_def
        max_rowid_def respond_def)
  have "search_employees s (Str ''An'') = (s, respond 200 (Rows_json
      [\<lparr>emp_id = 1, emp_name = SqlText ''Ana'', emp_role = SqlText ''eng'',
        emp_status = SqlText ''active''\<rparr>]))"
    by (simp add: search_employees_rows emps to_lower_def)
  moreover have "searchEmployeesByName s (Str ''An'') = Inr []"
    by (simp add: searchEmployeesByName_rows emps)
  moreover have "searchEmployeesByName s (Str ''Ana'') =
      Inr [\<lparr>emp_id = 1, emp_name = SqlText ''Ana'', emp_role = SqlText ''eng'',
        emp_status = SqlText ''active''\<rparr>]"
    by (simp add: searchEmployeesByName_rows emps)
  ultimately show ?thesis
    unfolding Let_def s_def [symmetric] by blast
qed

end
